theory Spec2Isabelle
  imports Main "HOL-Library.Sublist"
begin

section \<open>Life Guide AI: session state, journal, faith themes and reminder gate\<close>

text \<open>
  A shallow embedding of \<^verbatim>\<open>life_guide_scripture.py\<close>. The script keeps its data in the
  framework's session state and is re-run from top to bottom on every interaction. Each
  function of the script that touches the session state becomes a HOL function that takes
  the state and returns what it wrote to the page together with the new state. The outside
  world (the HTTP client, the file system, the text generator, the clock and the random
  source) is passed in as parameters.

  Text is modelled as \<^typ>\<open>string\<close>, one \<^typ>\<open>char\<close> for one character of a Python
  \<^verbatim>\<open>str\<close>; the model covers ASCII text. The pictographs in the script's messages are
  left out of the message texts, with the blank that separates them from the words; all
  other characters, markdown included, are kept.
\<close>

subsection \<open>Python string operations\<close>

text \<open>\<^verbatim>\<open>str.lower()\<close> on ASCII text: the letters A to Z move to a to z.\<close>

definition lower_char :: "char \<Rightarrow> char" where
  "lower_char c =
     (if (65::nat) \<le> of_char c \<and> of_char c \<le> (90::nat)
      then char_of (of_char c + (32::nat)) else c)"

definition lower :: "string \<Rightarrow> string" where
  "lower s = map lower_char s"

text \<open>\<^verbatim>\<open>a in b\<close> on strings: \<open>a\<close> occurs in \<open>b\<close> as a contiguous run of characters.\<close>

fun startswith :: "'a list \<Rightarrow> 'a list \<Rightarrow> bool" where
  "startswith [] ys = True"
| "startswith (x # xs) [] = False"
| "startswith (x # xs) (y # ys) = (x = y \<and> startswith xs ys)"

fun py_in :: "'a list \<Rightarrow> 'a list \<Rightarrow> bool" where
  "py_in xs [] = (xs = [])"
| "py_in xs (y # ys) = (startswith xs (y # ys) \<or> py_in xs ys)"

subsection \<open>The faith catalogue\<close>

text \<open>
  \<^verbatim>\<open>FAITH_BACKGROUNDS\<close> is a dictionary literal; Python iterates a dictionary in insertion
  order, so it is an association list here. Each value holds the image address; its
  second field, a caption shown in the side bar, is decoration and is left out.
\<close>

definition FAITH_BACKGROUNDS :: "(string \<times> string) list" where
  "FAITH_BACKGROUNDS =
    [(''Hinduism'', ''https://images.unsplash.com/photo-1599092027257-28b80e0d9a6b?auto=format&fit=crop&w=1200&q=80''),
     (''Christianity'', ''https://images.unsplash.com/photo-1559327615-cd4628902d4a?auto=format&fit=crop&w=1200&q=80''),
     (''Islam'', ''https://images.unsplash.com/photo-1529333166437-7750a6dd5a70?auto=format&fit=crop&w=1200&q=80''),
     (''Buddhism'', ''https://images.unsplash.com/photo-1465101162946-4377e57745c3?auto=format&fit=crop&w=1200&q=80''),
     (''Judaism'', ''https://images.unsplash.com/photo-1606148162298-69e1f7a47c0c?auto=format&fit=crop&w=1200&q=80''),
     (''Sikhism'', ''https://images.unsplash.com/photo-1506744038136-46273834b3fb?auto=format&fit=crop&w=1200&q=80''),
     (''Spiritualism'', ''https://images.unsplash.com/photo-1506905925346-21bda4d32df4?auto=format&fit=crop&w=1200&q=80''),
     (''Taoism'', ''https://images.unsplash.com/photo-1506126613408-eca07ce68773?auto=format&fit=crop&w=1200&q=80''),
     (''Atheism'', ''https://images.unsplash.com/photo-1519904981063-b0cf448d479e?auto=format&fit=crop&w=1200&q=80'')]"

definition faith_keys :: "string list" where
  "faith_keys = map fst FAITH_BACKGROUNDS"

text \<open>
  The test of the loop in \<^verbatim>\<open>main\<close>:
  \<^verbatim>\<open>faith.lower() in faith_key.lower() or faith_key.lower() in faith.lower()\<close>.
\<close>

definition faith_matches :: "string \<Rightarrow> string \<Rightarrow> bool" where
  "faith_matches faith faith_key \<longleftrightarrow>
     py_in (lower faith) (lower faith_key) \<or> py_in (lower faith_key) (lower faith)"

text \<open>
  \<^verbatim>\<open>for faith_key in FAITH_BACKGROUNDS.keys(): if <test>: ...; break\<close> with an
  \<^verbatim>\<open>else\<close> clause: the result is the key at which the loop breaks, or \<open>None\<close> when the
  loop runs off the end and its \<^verbatim>\<open>else\<close> clause is taken.
\<close>

fun first_faith_key :: "string \<Rightarrow> string list \<Rightarrow> string option" where
  "first_faith_key faith [] = None"
| "first_faith_key faith (faith_key # rest) =
     (if faith_matches faith faith_key then Some faith_key
      else first_faith_key faith rest)"

definition resolveByFreeText :: "string \<Rightarrow> string option" where
  "resolveByFreeText faith = first_faith_key faith faith_keys"

subsection \<open>Session state\<close>

text \<open>The four entries of the path select box.\<close>

datatype guide_path = FindHelp | SeekPurpose | ReflectWithin | DiscoverPeace

fun path_label :: "guide_path \<Rightarrow> string" where
  "path_label FindHelp = ''Find Help''"
| "path_label SeekPurpose = ''Seek Purpose''"
| "path_label ReflectWithin = ''Reflect Within''"
| "path_label DiscoverPeace = ''Discover Peace''"

text \<open>One element of \<^verbatim>\<open>st.session_state.user_data\<close>: the dictionary appended by \<^verbatim>\<open>main\<close>.\<close>

record entry =
  faith :: string
  path :: guide_path
  trouble :: string
  response :: string
  timestamp :: string

record preferences =
  pref_faith :: string
  favorite_path :: guide_path

record session_state =
  user_data :: "entry list"
  user_preferences :: preferences
  reminder_triggered :: bool
  notification_counter :: int
  background_image :: "string option"
  custom_bg_path :: "string option"
  current_bg_type :: string

text \<open>The values the script gives to keys that are not yet in the session state.\<close>

definition initial_session :: session_state where
  "initial_session =
     \<lparr>user_data = [],
      user_preferences = \<lparr>pref_faith = [], favorite_path = FindHelp\<rparr>,
      reminder_triggered = False,
      notification_counter = 0,
      background_image = None,
      custom_bg_path = None,
      current_bg_type = ''default''\<rparr>"

subsection \<open>What a run shows and asks of the outside world\<close>

text \<open>
  The calls that show a message, a journal entry or a background, and the calls that reach
  outside the process, are recorded as events, in the order the script makes them. The
  headings, the labels and the widgets themselves are not recorded; what the user has
  entered in the widgets is an input of the run.
\<close>

datatype ui_event =
    Toast string string
  | StInfo string
  | StWarning string
  | StError string
  | Balloons
  | Divider
  | BackgroundCss string string
  | HttpGet string
  | OpenRead string
  | GenerateContent string
  | DivineWhisper string
  | OpenWrite string
  | StWrite string
  | Caption string
  | TotalSessions nat
  | Expander string "ui_event list"
  | NotificationsShown int
  | SetWidget string string
  | Rerun
  | FooterCaption nat string

text \<open>An exception, with the text \<^verbatim>\<open>str(e)\<close> gives for it.\<close>

datatype py_exception = PyException string

fun str :: "py_exception \<Rightarrow> string" where
  "str (PyException msg) = msg"

text \<open>The part of a \<^verbatim>\<open>requests\<close> response the script reads.\<close>

record http_response =
  status_code :: nat
  content :: string
  content_type :: "string option"

text \<open>
  The collaborators: \<^verbatim>\<open>requests.get\<close>, reading a file in binary mode,
  \<^verbatim>\<open>os.path.exists\<close>, the suffix of a path as \<^verbatim>\<open>pathlib\<close> computes it, and
  \<^verbatim>\<open>generate_content(...).text\<close>. Each of the fallible ones returns either the exception
  it raises or its result.
\<close>

record world =
  http_get :: "string \<Rightarrow> py_exception + http_response"
  read_file :: "string \<Rightarrow> py_exception + string"
  path_exists :: "string \<Rightarrow> bool"
  path_suffix :: "string \<Rightarrow> string"
  generate_content :: "string \<Rightarrow> py_exception + string"

subsection \<open>Notifications\<close>

definition show_notification ::
  "string \<Rightarrow> string \<Rightarrow> session_state \<Rightarrow> ui_event list \<times> session_state" where
  "show_notification message notification_type s =
     (let s' = s\<lparr>notification_counter := notification_counter s + 1\<rparr> in
      if notification_type = ''success'' then ([Toast ''success'' message], s')
      else if notification_type = ''warning'' then ([Toast ''warning'' message], s')
      else if notification_type = ''error'' then ([Toast ''error'' message], s')
      else ([Toast ''info'' message], s'))"

subsection \<open>Reminders\<close>

definition reminder_messages :: "string list" where
  "reminder_messages =
     [''Remember, seeking guidance is a sign of strength.'',
      ''Take a moment to reflect on your spiritual journey.'',
      ''Peace begins within. Breathe deeply and be present.'',
      ''Your thoughts are valid. Consider sharing them with your guide.'',
      ''May wisdom and compassion guide your path today.'']"

definition reminder_hours :: "nat list" where
  "reminder_hours = [9, 12, 15, 18, 21]"

text \<open>
  \<^verbatim>\<open>check_and_show_reminder\<close>, given the hour the clock reports and the index that
  \<^verbatim>\<open>random.choice\<close> draws.
\<close>

definition check_and_show_reminder ::
  "nat \<Rightarrow> nat \<Rightarrow> session_state \<Rightarrow> ui_event list \<times> session_state" where
  "check_and_show_reminder current_hour choice s =
     (if current_hour \<in> set reminder_hours \<and> \<not> reminder_triggered s then
        ([Balloons,
          StInfo (''**Daily Reminder:** '' @ reminder_messages ! (choice mod length reminder_messages))],
         s\<lparr>reminder_triggered := True\<rparr>)
      else if current_hour \<notin> set reminder_hours then
        ([], s\<lparr>reminder_triggered := False\<rparr>)
      else ([], s))"

text \<open>A reminder was shown in a run iff the run released the balloons.\<close>

definition reminder_fired :: "ui_event list \<times> session_state \<Rightarrow> bool" where
  "reminder_fired r \<longleftrightarrow> Balloons \<in> set (fst r)"

text \<open>Polling the gate once per hour value of a list, the state carried along.\<close>

fun poll_reminders :: "nat list \<Rightarrow> session_state \<Rightarrow> bool list \<times> session_state" where
  "poll_reminders [] s = ([], s)"
| "poll_reminders (h # hs) s =
     (let r = check_and_show_reminder h 0 s;
          rest = poll_reminders hs (snd r)
      in (reminder_fired r # fst rest, snd rest))"

subsection \<open>Applying a background\<close>

text \<open>
  Both functions return whether the background was applied. The style sheet they write is
  recorded as \<open>BackgroundCss\<close> with the MIME type and the image bytes (which the script
  embeds in base64).
\<close>

definition file_mime_type :: "string \<Rightarrow> string" where
  "file_mime_type file_ext =
     (if file_ext \<in> set [''.jpg'', ''.jpeg''] then ''image/jpeg''
      else if file_ext = ''.png'' then ''image/png''
      else if file_ext = ''.gif'' then ''image/gif''
      else ''image/jpeg'')"

definition set_background_from_file ::
  "world \<Rightarrow> string \<Rightarrow> session_state \<Rightarrow> bool \<times> ui_event list \<times> session_state" where
  "set_background_from_file w image_path s =
     (case read_file w image_path of
        Inr data \<Rightarrow>
          (True,
           [OpenRead image_path,
            BackgroundCss (file_mime_type (lower (path_suffix w image_path))) data],
           s\<lparr>current_bg_type := ''custom''\<rparr>)
      | Inl e \<Rightarrow>
          (False,
           [OpenRead image_path, StWarning (''Error loading background: '' @ str e)],
           s))"

definition set_background_from_url ::
  "world \<Rightarrow> string \<Rightarrow> string \<Rightarrow> session_state \<Rightarrow> bool \<times> ui_event list \<times> session_state" where
  "set_background_from_url w image_url faith_name s =
     (case http_get w image_url of
        Inr resp \<Rightarrow>
          (if status_code resp = 200 then
             (True,
              [HttpGet image_url,
               BackgroundCss
                 (case content_type resp of Some t \<Rightarrow> t | None \<Rightarrow> ''image/jpeg'')
                 (content resp)],
              s\<lparr>current_bg_type := ''faith''\<rparr>)
           else
             (False,
              [HttpGet image_url, StWarning ''Failed to load background image from URL''],
              s))
      | Inl e \<Rightarrow>
          (False,
           [HttpGet image_url, StWarning (''Error loading background: '' @ str e)],
           s))"

subsection \<open>The background settings of the side bar\<close>

text \<open>
  What the user has chosen in the side bar: the radio option, and under it the selected
  faith and whether the button is pressed, the name of the uploaded file if there is one,
  or the typed path and whether the button is pressed.
\<close>

datatype bg_option =
    DefaultDark
  | ScriptureTheme string bool
  | UploadImage "string option"
  | LocalFilePath string bool

text \<open>
  The select box offers the keys of the catalogue only, so the dictionary lookup of the
  selected faith finds its entry; the branch for a missing key is not reachable from the
  page and does nothing here. Writing the uploaded bytes to the temporary file is taken to
  succeed.
\<close>

definition show_background_settings ::
  "world \<Rightarrow> bg_option \<Rightarrow> session_state \<Rightarrow> ui_event list \<times> session_state" where
  "show_background_settings w bg s =
     (case bg of
        ScriptureTheme selected_faith pressed \<Rightarrow>
          (case map_of FAITH_BACKGROUNDS selected_faith of
             None \<Rightarrow> ([], s)
           | Some bg_url \<Rightarrow>
               if pressed then
                 (case set_background_from_url w bg_url selected_faith s of
                    (True, ev, s1) \<Rightarrow>
                      (let (ev2, s2) = show_notification ''Scripture background applied!'' ''success'' s1
                       in (ev @ ev2,
                           s2\<lparr>user_preferences :=
                                (user_preferences s2)\<lparr>pref_faith := selected_faith\<rparr>\<rparr>))
                  | (False, ev, s1) \<Rightarrow>
                      (let (ev2, s2) =
                             show_notification ''Failed to load scripture background'' ''error'' s1
                       in (ev @ ev2, s2)))
               else ([], s))
      | UploadImage uploaded_file \<Rightarrow>
          (case uploaded_file of
             None \<Rightarrow> ([], s)
           | Some name \<Rightarrow>
               (let temp_path = ''temp_bg_'' @ name;
                    s0 = s\<lparr>custom_bg_path := Some temp_path\<rparr>
                in case set_background_from_file w temp_path s0 of
                     (True, ev, s1) \<Rightarrow>
                       (let (ev2, s2) = show_notification ''Background updated!'' ''success'' s1
                        in (OpenWrite temp_path # ev @ ev2, s2))
                   | (False, ev, s1) \<Rightarrow>
                       (OpenWrite temp_path # ev, s1\<lparr>custom_bg_path := None\<rparr>)))
      | LocalFilePath local_path pressed \<Rightarrow>
          (if local_path \<noteq> [] \<and> pressed then
             (if path_exists w local_path then
                (let s0 = s\<lparr>custom_bg_path := Some local_path\<rparr>
                 in case set_background_from_file w local_path s0 of
                      (True, ev, s1) \<Rightarrow>
                        (let (ev2, s2) =
                               show_notification ''Background loaded successfully!'' ''success'' s1
                         in (ev @ ev2, s2))
                    | (False, ev, s1) \<Rightarrow> (ev, s1))
              else
                ([StWarning (''File not found: '' @ local_path)], s\<lparr>custom_bg_path := None\<rparr>))
           else ([], s))
      | DefaultDark \<Rightarrow>
          ([], s\<lparr>custom_bg_path := None, current_bg_type := ''default''\<rparr>))"

subsection \<open>The journal in the side bar\<close>

text \<open>
  \<^verbatim>\<open>reversed(xs)\<close> on a list is an iterator that reads \<open>xs\<close> by index from the last
  position down to the first; it builds nothing and writes nothing to \<open>xs\<close>.
\<close>

fun reversed_from :: "'a list \<Rightarrow> nat \<Rightarrow> 'a list" where
  "reversed_from xs 0 = []"
| "reversed_from xs (Suc i) = xs ! i # reversed_from xs i"

definition reversed :: "'a list \<Rightarrow> 'a list" where
  "reversed xs = reversed_from xs (length xs)"

text \<open>
  The two excerpts an expander shows: \<^verbatim>\<open>entry['trouble'][:150]\<close> followed by
  \<^verbatim>\<open>...\<close>, and \<^verbatim>\<open>entry['response'][:300] + "..."\<close>.
\<close>

definition summarize :: "entry \<Rightarrow> string \<times> string" where
  "summarize e = (take 150 (trouble e) @ ''...'', take 300 (response e) @ ''...'')"

definition history_expander :: "entry \<Rightarrow> ui_event" where
  "history_expander e =
     Expander (path_label (path e) @ '' - '' @ take 10 (timestamp e))
       [StWrite (''**Faith:** '' @ faith e),
        StWrite (''**Path:** '' @ path_label (path e)),
        StWrite ''**Your Concern:**'',
        StWrite (''_'' @ fst (summarize e) @ ''_''),
        Divider,
        StWrite ''**Guidance Received:**'',
        StWrite (snd (summarize e)),
        Caption (''_Received at: '' @ timestamp e @ ''_'')]"

definition show_user_history :: "session_state \<Rightarrow> ui_event list \<times> session_state" where
  "show_user_history s =
     (if user_data s \<noteq> [] then
        ([TotalSessions (length (user_data s)), Divider]
           @ map history_expander (reversed (user_data s)), s)
      else ([StInfo ''Your spiritual journey begins now...''], s))"

subsection \<open>The form of the main column\<close>

fun join :: "string \<Rightarrow> string list \<Rightarrow> string" where
  "join sep [] = []"
| "join sep [x] = x"
| "join sep (x # y # ys) = x @ sep @ join sep (y # ys)"

text \<open>
  The block under \<^verbatim>\<open>if auto_bg and faith:\<close>. An empty string is false in Python, so
  the loop over the catalogue is entered only when the button is pressed and the faith
  field is not empty.
\<close>

definition main_scripture_bg ::
  "world \<Rightarrow> bool \<Rightarrow> string \<Rightarrow> session_state \<Rightarrow> ui_event list \<times> session_state" where
  "main_scripture_bg w auto_bg faith_input s =
     (if auto_bg \<and> faith_input \<noteq> [] then
        (case first_faith_key faith_input faith_keys of
           Some faith_key \<Rightarrow>
             (case map_of FAITH_BACKGROUNDS faith_key of
                None \<Rightarrow> ([], s)
              | Some bg_url \<Rightarrow>
                  (case set_background_from_url w bg_url faith_key s of
                     (True, ev, s1) \<Rightarrow>
                       (let (ev2, s2) =
                              show_notification
                                (''Scripture background applied for '' @ faith_key @ ''!'')
                                ''success'' s1
                        in (ev @ ev2, s2))
                   | (False, ev, s1) \<Rightarrow> (ev, s1)))
         | None \<Rightarrow> ([StInfo (''Available faiths: '' @ join '', '' faith_keys)], s))
      else ([], s))"

text \<open>The prompt sent to the text generator.\<close>

definition newline :: string where
  "newline = [CHR 0x0A]"

definition build_prompt :: "string \<Rightarrow> guide_path \<Rightarrow> string \<Rightarrow> string" where
  "build_prompt faith_input path_input trouble_input =
     ''You are a wise, compassionate spiritual AI guide rooted in the '' @ faith_input
       @ '' tradition. '' @ newline
     @ ''The seeker comes to you to '' @ lower (path_label path_input)
       @ ''. They share: '' @ trouble_input @ newline
     @ newline
     @ ''Provide deeply thoughtful, poetic, and comforting spiritual guidance that:'' @ newline
     @ ''- Acknowledges their concern with empathy'' @ newline
     @ ''- lighter language for the user to understand (write as if someone is helping you out on text messages) (you can use casual language)'' @ newline
     @ ''- can use hinglish too'' @ newline
     @ ''- Draws on wisdom from '' @ faith_input @ '' teachings if relevant'' @ newline
     @ ''- Offers practical spiritual perspective and advice'' @ newline
     @ ''- Is warm, non-judgmental, and uplifting'' @ newline
     @ ''- Uses a calm, reflective tone'' @ newline
     @ ''- Helps them see their situation with clarity and hope'' @ newline
     @ ''- Try to correlate the problem with their life and provide a solution from ''
       @ faith_input @ '' scripture'' @ newline
     @ newline
     @ newline
     @ ''Keep the response to 3-4 paragraphs.''"

text \<open>\<^verbatim>\<open>st.session_state.user_data.append(entry)\<close>.\<close>

definition journal_append :: "entry \<Rightarrow> session_state \<Rightarrow> session_state" where
  "journal_append e s = s\<lparr>user_data := user_data s @ [e]\<rparr>"

text \<open>
  The block under \<^verbatim>\<open>if seek_guidance:\<close>, given the values of the form, the check box
  \<^verbatim>\<open>save_prefs\<close> and the time stamp the clock gives. The model object is built outside
  the \<^verbatim>\<open>try\<close>; the call of the generator and the reading of its text are inside it.
\<close>

definition main_seek_guidance ::
  "world \<Rightarrow> bool \<Rightarrow> string \<Rightarrow> guide_path \<Rightarrow> string \<Rightarrow> bool \<Rightarrow> string \<Rightarrow>
     session_state \<Rightarrow> ui_event list \<times> session_state" where
  "main_seek_guidance w seek_guidance faith_input path_input trouble_input save_prefs now s =
     (if seek_guidance then
        (if faith_input = [] \<or> trouble_input = [] then
           (let (ev, s1) =
                  show_notification ''Please fill in all fields to receive guidance'' ''warning'' s
            in (ev @ [StWarning
                       ''Please share your faith and your concern to receive personalized guidance.''],
                s1))
         else
           (let s1 = (if save_prefs
                      then s\<lparr>user_preferences :=
                               (user_preferences s)\<lparr>pref_faith := faith_input\<rparr>\<rparr>
                      else s);
                prompt = build_prompt faith_input path_input trouble_input
            in case generate_content w prompt of
                 Inr ai_response \<Rightarrow>
                   (let s2 = journal_append
                               \<lparr>faith = faith_input, path = path_input,
                                trouble = trouble_input, response = ai_response,
                                timestamp = now\<rparr> s1;
                        (ev, s3) = show_notification ''Guidance received and saved!'' ''success'' s2
                    in ([GenerateContent prompt, Divider, DivineWhisper ai_response, Divider]
                          @ ev @ [Balloons],
                        s3))
               | Inl e \<Rightarrow>
                   (let (ev, s2) =
                          show_notification (''Connection error: '' @ take 50 (str e)) ''error'' s1
                    in ([GenerateContent prompt] @ ev
                          @ [StError (''The spirits are troubled: '' @ str e)],
                        s2))))
      else ([], s))"

text \<open>The calls of the text generator among the events of a run.\<close>

fun is_generate :: "ui_event \<Rightarrow> bool" where
  "is_generate (GenerateContent p) = True"
| "is_generate ev = False"

subsection \<open>The reminder gate as the specification words it\<close>

text \<open>
  The specification describes the gate over a state that remembers the hour of the last
  reminder: it fires iff the hour is scheduled and differs from the remembered hour; when
  it fires it remembers the hour; outside the schedule it forgets. This definition
  follows those words, to be compared with \<open>check_and_show_reminder\<close>.
\<close>

definition shouldFire_spec :: "nat \<Rightarrow> nat option \<Rightarrow> bool \<times> nat option" where
  "shouldFire_spec currentHour lastFiredHour =
     (if currentHour \<in> set reminder_hours \<and> lastFiredHour \<noteq> Some currentHour
      then (True, Some currentHour)
      else if currentHour \<notin> set reminder_hours then (False, None)
      else (False, lastFiredHour))"

fun poll_spec :: "nat list \<Rightarrow> nat option \<Rightarrow> bool list \<times> nat option" where
  "poll_spec [] l = ([], l)"
| "poll_spec (h # hs) l =
     (let r = shouldFire_spec h l;
          rest = poll_spec hs (snd r)
      in (fst r # fst rest, snd rest))"

subsection \<open>The rest of the side bar\<close>

text \<open>
  \<^verbatim>\<open>show_preferences\<close>, given the text of the faith field of the side bar, the selected
  favourite path and the check box for remembering the preferences (ticked unless the user
  clears it). Both preferences are overwritten on every run.
\<close>

definition show_preferences ::
  "string \<Rightarrow> guide_path \<Rightarrow> bool \<Rightarrow> session_state \<Rightarrow> ui_event list \<times> session_state" where
  "show_preferences faith_text favorite remember s =
     (let s1 = s\<lparr>user_preferences :=
                   (user_preferences s)\<lparr>pref_faith := faith_text, favorite_path := favorite\<rparr>\<rparr>
      in if remember then show_notification ''Preferences saved for this session!'' ''info'' s1
         else ([], s1))"

text \<open>
  \<^verbatim>\<open>show_reminder_settings\<close>, given the check box for reminders and the selected
  frequency. It only shows text; the counter of notifications is shown when positive.
\<close>

definition show_reminder_settings ::
  "bool \<Rightarrow> string \<Rightarrow> session_state \<Rightarrow> ui_event list \<times> session_state" where
  "show_reminder_settings enable_reminders reminder_frequency s =
     ((if enable_reminders \<and> reminder_frequency = ''Custom''
       then [StWrite ''_Reminders will show at: 9 AM, 12 PM, 3 PM, 6 PM, 9 PM_''] else [])
      @ (if notification_counter s > 0 then [NotificationsShown (notification_counter s)] else []),
      s)"

subsection \<open>One run of the script\<close>

text \<open>
  Everything one run of \<^verbatim>\<open>main\<close> reads: the hour of the clock and the draw of the random
  source, the widgets of the side bar, the widgets and buttons of the form, and the time
  stamp of the clock.
\<close>

record run_inputs =
  in_hour :: nat
  in_choice :: nat
  in_bg :: bg_option
  in_pref_faith :: string
  in_favorite_path :: guide_path
  in_remember :: bool
  in_enable_reminders :: bool
  in_reminder_frequency :: string
  in_faith :: string
  in_path :: guide_path
  in_trouble :: string
  in_save_prefs :: bool
  in_seek_guidance :: bool
  in_auto_bg :: bool
  in_clear_form :: bool
  in_now :: string

text \<open>
  The run up to the form's buttons: the reminder, then the side bar (background settings,
  preferences, reminder settings, journal, with dividers between them), then the block of
  the scripture background button.
\<close>

definition main_before_seek ::
  "world \<Rightarrow> run_inputs \<Rightarrow> session_state \<Rightarrow> ui_event list \<times> session_state" where
  "main_before_seek w i s =
     (let (ev0, s0) = check_and_show_reminder (in_hour i) (in_choice i) s;
          (ev1, s1) = show_background_settings w (in_bg i) s0;
          (ev2, s2) = show_preferences (in_pref_faith i) (in_favorite_path i) (in_remember i) s1;
          (ev3, s3) = show_reminder_settings (in_enable_reminders i) (in_reminder_frequency i) s2;
          (ev4, s4) = show_user_history s3;
          (ev5, s5) = main_scripture_bg w (in_auto_bg i) (in_faith i) s4
      in (ev0 @ ev1 @ [Divider] @ ev2 @ [Divider] @ ev3 @ [Divider] @ ev4 @ ev5, s5))"

text \<open>
  \<^verbatim>\<open>main\<close>. The clear button writes the empty string to the two form fields, notifies
  and ends the run with \<^verbatim>\<open>st.rerun()\<close>; otherwise the block of the guidance button
  follows, and the footer with the number of journal entries and the background type.
\<close>

definition main :: "world \<Rightarrow> run_inputs \<Rightarrow> session_state \<Rightarrow> ui_event list \<times> session_state" where
  "main w i s =
     (let (ev, s5) = main_before_seek w i s in
      if in_clear_form i then
        (let (ev6, s6) = show_notification ''Form cleared!'' ''info'' s5
         in (ev @ [SetWidget ''faith_input'' [], SetWidget ''trouble_input'' []] @ ev6 @ [Rerun],
             s6))
      else
        (let (ev6, s6) = main_seek_guidance w (in_seek_guidance i) (in_faith i) (in_path i)
                           (in_trouble i) (in_save_prefs i) (in_now i) s5
         in (ev @ ev6 @ [Divider, FooterCaption (length (user_data s6)) (current_bg_type s6)],
             s6)))"

subsection \<open>Concrete inputs\<close>

text \<open>A world in which every collaborator answers.\<close>

definition working_world :: world where
  "working_world =
     \<lparr>http_get = (\<lambda>url. Inr \<lparr>status_code = 200, content = ''PNG'', content_type = Some ''image/png''\<rparr>),
      read_file = (\<lambda>p. Inr ''PNG''),
      path_exists = (\<lambda>p. True),
      path_suffix = (\<lambda>p. ''.png''),
      generate_content = (\<lambda>prompt. Inr ''Be at peace'')\<rparr>"

text \<open>
  A world in which the network is down, the generator's quota is used up, and every path
  exists but cannot be opened for reading (as a directory cannot).
\<close>

definition failing_world :: world where
  "failing_world =
     \<lparr>http_get = (\<lambda>url. Inl (PyException ''Connection refused'')),
      read_file = (\<lambda>p. Inl (PyException ''[Errno 21] Is a directory'')),
      path_exists = (\<lambda>p. True),
      path_suffix = (\<lambda>p. []),
      generate_content = (\<lambda>prompt. Inl (PyException ''429 quota exceeded''))\<rparr>"

definition sample_entry :: entry where
  "sample_entry =
     \<lparr>faith = ''Buddhism'', path = SeekPurpose, trouble = ''I feel lost'',
      response = ''Be at peace'', timestamp = ''2024-05-01T09:30:00''\<rparr>"

text \<open>A session in which a picture from a local file is the active background.\<close>

definition custom_session :: session_state where
  "custom_session =
     initial_session\<lparr>custom_bg_path := Some ''/home/user/a.png'', current_bg_type := ''custom''\<rparr>"

text \<open>
  A guidance request with the side bar as the page first shows it: the dark background,
  the check boxes ticked, no other button pressed.
\<close>

definition request_inputs :: run_inputs where
  "request_inputs =
     \<lparr>in_hour = 10, in_choice = 0, in_bg = DefaultDark,
      in_pref_faith = [], in_favorite_path = FindHelp, in_remember = True,
      in_enable_reminders = True, in_reminder_frequency = ''Every 3 hours'',
      in_faith = ''Buddhism'', in_path = SeekPurpose, in_trouble = ''I feel lost'',
      in_save_prefs = True, in_seek_guidance = True, in_auto_bg = False,
      in_clear_form = False, in_now = ''2024-05-01T09:30:00''\<rparr>"

text \<open>An entry whose concern is longer than 150 and whose guidance is longer than 300.\<close>

definition long_entry :: entry where
  "long_entry =
     \<lparr>faith = ''Buddhism'', path = SeekPurpose, trouble = replicate 200 CHR ''a'',
      response = replicate 400 CHR ''b'', timestamp = ''2024-05-01T09:30:00''\<rparr>"

section \<open>Properties\<close>

subsection \<open>Substring test and first match\<close>

lemma startswith_prefix: "startswith xs ys \<longleftrightarrow> prefix xs ys"
  by (induction xs ys rule: startswith.induct) auto

lemma py_in_sublist: "py_in xs ys \<longleftrightarrow> sublist xs ys"
  by (induction ys) (auto simp: startswith_prefix sublist_Cons_right)

lemma py_in_iff: "py_in xs ys \<longleftrightarrow> (\<exists>ps ss. ys = ps @ xs @ ss)"
  by (simp add: py_in_sublist sublist_def)

lemma faith_keys_eq:
  "faith_keys = [''Hinduism'', ''Christianity'', ''Islam'', ''Buddhism'', ''Judaism'',
                 ''Sikhism'', ''Spiritualism'', ''Taoism'', ''Atheism'']"
  by (simp add: faith_keys_def FAITH_BACKGROUNDS_def)

lemma first_faith_key_None:
  "first_faith_key f ks = None \<longleftrightarrow> (\<forall>k \<in> set ks. \<not> faith_matches f k)"
  by (induction ks) auto

lemma resolve_hindu: "resolveByFreeText ''hindu'' = Some ''Hinduism''"
  by code_simp

lemma resolve_xyz: "resolveByFreeText ''xyz'' = None"
  by code_simp

lemma resolve_empty: "resolveByFreeText [] = Some ''Hinduism''"
  by code_simp

lemma reversed_from_rev: "i \<le> length xs \<Longrightarrow> reversed_from xs i = rev (take i xs)"
proof (induction i)
  case 0
  then show ?case by simp
next
  case (Suc i)
  then have "i < length xs" by simp
  then have "take (Suc i) xs = take i xs @ [xs ! i]"
    by (simp add: take_Suc_conv_app_nth)
  with Suc show ?case by simp
qed

lemma reversed_rev: "reversed xs = rev xs"
  by (simp add: reversed_def reversed_from_rev)

lemma user_data_fold_append:
  "user_data (fold journal_append es s) = user_data s @ es"
  by (induction es arbitrary: s) (simp_all add: journal_append_def)

lemma show_notification_state:
  "snd (show_notification m t s) = s\<lparr>notification_counter := notification_counter s + 1\<rparr>"
  by (simp add: show_notification_def Let_def)

lemma show_notification_events:
  "fst (show_notification m t s) =
     [Toast (if t \<in> set [''success'', ''warning'', ''error''] then t else ''info'') m]"
  by (simp add: show_notification_def Let_def)


lemma first_faith_key_Some:
  "first_faith_key f ks = Some k \<longleftrightarrow>
     (\<exists>i < length ks. ks ! i = k \<and> faith_matches f k \<and> (\<forall>j < i. \<not> faith_matches f (ks ! j)))"
proof (induction ks)
  case Nil
  then show ?case by simp
next
  case (Cons a ks)
  show ?case
  proof (cases "faith_matches f a")
    case True
    have "(\<exists>i < length (a # ks). (a # ks) ! i = k \<and> faith_matches f k \<and>
            (\<forall>j < i. \<not> faith_matches f ((a # ks) ! j))) \<longleftrightarrow> a = k"
    proof
      assume "\<exists>i < length (a # ks). (a # ks) ! i = k \<and> faith_matches f k \<and>
            (\<forall>j < i. \<not> faith_matches f ((a # ks) ! j))"
      then obtain i where i: "(a # ks) ! i = k" "\<forall>j < i. \<not> faith_matches f ((a # ks) ! j)"
        by blast
      have "i = 0"
      proof (rule ccontr)
        assume "i \<noteq> 0"
        then have "0 < i" by simp
        with i(2) have "\<not> faith_matches f ((a # ks) ! 0)" by blast
        with True show False by simp
      qed
      with i(1) show "a = k" by simp
    next
      assume "a = k"
      with True show "\<exists>i < length (a # ks). (a # ks) ! i = k \<and> faith_matches f k \<and>
            (\<forall>j < i. \<not> faith_matches f ((a # ks) ! j))"
        by (intro exI[of _ 0]) simp
    qed
    with True show ?thesis by simp
  next
    case False
    have "(\<exists>i < length (a # ks). (a # ks) ! i = k \<and> faith_matches f k \<and>
            (\<forall>j < i. \<not> faith_matches f ((a # ks) ! j))) \<longleftrightarrow>
          (\<exists>i < length ks. ks ! i = k \<and> faith_matches f k \<and>
            (\<forall>j < i. \<not> faith_matches f (ks ! j)))" (is "?L \<longleftrightarrow> ?R")
    proof
      assume ?L
      then obtain i where i: "i < length (a # ks)" "(a # ks) ! i = k" "faith_matches f k"
        "\<forall>j < i. \<not> faith_matches f ((a # ks) ! j)" by blast
      from i(2,3) False have "i \<noteq> 0" by (cases i) auto
      then obtain i' where i': "i = Suc i'" by (cases i) auto
      have "\<forall>j < i'. \<not> faith_matches f (ks ! j)"
      proof (intro allI impI)
        fix j assume "j < i'"
        then have "Suc j < i" using i' by simp
        with i(4) have "\<not> faith_matches f ((a # ks) ! Suc j)" by blast
        then show "\<not> faith_matches f (ks ! j)" by simp
      qed
      with i i' show ?R by (intro exI[of _ i']) simp
    next
      assume ?R
      then obtain i where i: "i < length ks" "ks ! i = k" "faith_matches f k"
        "\<forall>j < i. \<not> faith_matches f (ks ! j)" by blast
      have "\<forall>j < Suc i. \<not> faith_matches f ((a # ks) ! j)"
      proof (intro allI impI)
        fix j assume "j < Suc i"
        then show "\<not> faith_matches f ((a # ks) ! j)"
          using False i(4) by (cases j) auto
      qed
      with i show ?L by (intro exI[of _ "Suc i"]) simp
    qed
    with False Cons.IH show ?thesis by simp
  qed
qed

subsection \<open>Free-text resolution of a faith\<close>

text \<open>
  Claim C3. The free-text resolution lowers the input and each key, accepts a key iff one
  of the two lowered strings occurs inside the other, walks the nine keys in the order of
  the catalogue (Hinduism first) and stops at the first key accepted; it yields no key iff
  no key is accepted. The input \<open>hindu\<close> resolves to Hinduism and \<open>xyz\<close> to nothing.
\<close>

theorem resolveByFreeText_first_match:
  "faith_keys = [''Hinduism'', ''Christianity'', ''Islam'', ''Buddhism'', ''Judaism'',
                 ''Sikhism'', ''Spiritualism'', ''Taoism'', ''Atheism'']
   \<and> (faith_matches f k \<longleftrightarrow>
        (\<exists>ps ss. lower k = ps @ lower f @ ss) \<or> (\<exists>ps ss. lower f = ps @ lower k @ ss))
   \<and> (resolveByFreeText f = Some k \<longleftrightarrow>
        (\<exists>i < length faith_keys. faith_keys ! i = k \<and> faith_matches f k
            \<and> (\<forall>j < i. \<not> faith_matches f (faith_keys ! j))))
   \<and> (resolveByFreeText f = None \<longleftrightarrow> (\<forall>k' \<in> set faith_keys. \<not> faith_matches f k'))
   \<and> resolveByFreeText ''hindu'' = Some ''Hinduism''
   \<and> resolveByFreeText ''xyz'' = None"
proof (intro conjI)
  show "faith_keys = [''Hinduism'', ''Christianity'', ''Islam'', ''Buddhism'', ''Judaism'',
                 ''Sikhism'', ''Spiritualism'', ''Taoism'', ''Atheism'']"
    by (rule faith_keys_eq)
  show "faith_matches f k \<longleftrightarrow>
        (\<exists>ps ss. lower k = ps @ lower f @ ss) \<or> (\<exists>ps ss. lower f = ps @ lower k @ ss)"
    by (simp only: faith_matches_def py_in_iff)
  show "resolveByFreeText f = Some k \<longleftrightarrow>
        (\<exists>i < length faith_keys. faith_keys ! i = k \<and> faith_matches f k
            \<and> (\<forall>j < i. \<not> faith_matches f (faith_keys ! j)))"
    unfolding resolveByFreeText_def by (rule first_faith_key_Some)
  show "resolveByFreeText f = None \<longleftrightarrow> (\<forall>k' \<in> set faith_keys. \<not> faith_matches f k')"
    unfolding resolveByFreeText_def by (rule first_faith_key_None)
  show "resolveByFreeText ''hindu'' = Some ''Hinduism''" by (rule resolve_hindu)
  show "resolveByFreeText ''xyz'' = None" by (rule resolve_xyz)
qed

theorem resolveByFreeText_first_match_witness:
  "resolveByFreeText ''buddh'' = Some ''Buddhism''
   \<and> (\<exists>i < length faith_keys. faith_keys ! i = ''Buddhism'' \<and> faith_matches ''buddh'' ''Buddhism''
         \<and> (\<forall>j < i. \<not> faith_matches ''buddh'' (faith_keys ! j)))
   \<and> \<not> (\<exists>k' \<in> set faith_keys. faith_matches ''xyz'' k')"
proof -
  have a: "resolveByFreeText ''buddh'' = Some ''Buddhism''" by code_simp
  have b: "resolveByFreeText ''xyz'' = None" by code_simp
  from a b resolveByFreeText_first_match [of "''buddh''" "''Buddhism''"]
       resolveByFreeText_first_match [of "''xyz''" "''Buddhism''"]
  show ?thesis by blast
qed

subsection \<open>What the parts of a run leave alone\<close>

lemma check_and_show_reminder_state:
  "snd (check_and_show_reminder h c s) = s\<lparr>reminder_triggered := (h \<in> set reminder_hours)\<rparr>"
  by (cases s) (simp add: check_and_show_reminder_def)

lemma check_and_show_reminder_fired:
  "reminder_fired (check_and_show_reminder h c s) \<longleftrightarrow>
     h \<in> set reminder_hours \<and> \<not> reminder_triggered s"
  by (simp add: check_and_show_reminder_def reminder_fired_def)

lemma set_background_from_url_failed:
  "set_background_from_url w u n s = (False, ev, s') \<Longrightarrow> s' = s"
  by (auto simp: set_background_from_url_def split: sum.splits if_splits)

lemma set_background_from_url_applied:
  "set_background_from_url w u n s = (True, ev, s') \<Longrightarrow> s' = s\<lparr>current_bg_type := ''faith''\<rparr>"
  by (auto simp: set_background_from_url_def split: sum.splits if_splits)

lemma set_background_from_file_failed:
  "set_background_from_file w p s = (False, ev, s') \<Longrightarrow> s' = s"
  by (auto simp: set_background_from_file_def split: sum.splits)

lemma set_background_from_file_applied:
  "set_background_from_file w p s = (True, ev, s') \<Longrightarrow> s' = s\<lparr>current_bg_type := ''custom''\<rparr>"
  by (auto simp: set_background_from_file_def split: sum.splits)

lemma show_background_settings_user_data:
  "user_data (snd (show_background_settings w bg s)) = user_data s"
  by (auto simp: show_background_settings_def show_notification_def Let_def
        split: bg_option.splits option.splits prod.splits bool.splits
        dest!: set_background_from_url_failed set_background_from_url_applied
               set_background_from_file_failed set_background_from_file_applied)

lemma show_preferences_user_data:
  "user_data (snd (show_preferences f p r s)) = user_data s"
  by (simp add: show_preferences_def show_notification_def Let_def)

lemma show_preferences_counter:
  "notification_counter (snd (show_preferences f p r s))
     = notification_counter s + (if r then 1 else 0)"
  by (simp add: show_preferences_def show_notification_def Let_def)

lemma show_reminder_settings_state: "snd (show_reminder_settings b f s) = s"
  by (simp add: show_reminder_settings_def)

lemma show_user_history_state: "snd (show_user_history s) = s"
  by (simp add: show_user_history_def)

lemma main_scripture_bg_user_data:
  "user_data (snd (main_scripture_bg w b f s)) = user_data s"
  by (auto simp: main_scripture_bg_def show_notification_def Let_def
        split: option.splits prod.splits bool.splits
        dest!: set_background_from_url_failed set_background_from_url_applied)

lemma main_scripture_bg_not_pressed: "main_scripture_bg w False f s = ([], s)"
  by (simp add: main_scripture_bg_def)

lemma snd_main_before_seek:
  "snd (main_before_seek w i s) =
     snd (main_scripture_bg w (in_auto_bg i) (in_faith i)
       (snd (show_preferences (in_pref_faith i) (in_favorite_path i) (in_remember i)
         (snd (show_background_settings w (in_bg i)
           (snd (check_and_show_reminder (in_hour i) (in_choice i) s)))))))"
  by (simp add: main_before_seek_def case_prod_beta show_reminder_settings_state
        show_user_history_state)

lemma main_before_seek_user_data:
  "user_data (snd (main_before_seek w i s)) = user_data s"
  by (simp add: snd_main_before_seek main_scripture_bg_user_data show_preferences_user_data
        show_background_settings_user_data check_and_show_reminder_state)

lemma snd_main_no_clear:
  "\<not> in_clear_form i \<Longrightarrow>
     snd (main w i s) =
       snd (main_seek_guidance w (in_seek_guidance i) (in_faith i) (in_path i) (in_trouble i)
              (in_save_prefs i) (in_now i) (snd (main_before_seek w i s)))"
  by (simp add: main_def case_prod_beta)

lemma main_before_seek_plain_counter:
  "in_bg i = DefaultDark \<Longrightarrow> \<not> in_auto_bg i \<Longrightarrow>
     notification_counter (snd (main_before_seek w i s))
       = notification_counter s + (if in_remember i then 1 else 0)"
  by (simp add: snd_main_before_seek main_scripture_bg_not_pressed show_preferences_counter
        show_background_settings_def check_and_show_reminder_state)

lemma main_seek_guidance_block_success:
  assumes "faith_input \<noteq> []" and "trouble_input \<noteq> []"
    and "generate_content w (build_prompt faith_input path_input trouble_input) = Inr T"
  shows "user_data (snd (main_seek_guidance w True faith_input path_input trouble_input
                          save_prefs now s))
           = user_data s @ [\<lparr>faith = faith_input, path = path_input, trouble = trouble_input,
                             response = T, timestamp = now\<rparr>]"
    and "notification_counter (snd (main_seek_guidance w True faith_input path_input
                                        trouble_input save_prefs now s))
           = notification_counter s + 1"
  using assms
  by (simp_all add: main_seek_guidance_def journal_append_def show_notification_def Let_def)

subsection \<open>A whole run with a guidance request\<close>

text \<open>
  Claim C1, as amended. In a run of \<^verbatim>\<open>main\<close> in which the guidance button is pressed (and
  the clear button is not), the faith and the concern are not empty and the generator
  answers with a text, exactly one entry holding the faith, the path, the concern and that
  text is appended to the journal, and the journal is one longer. The block of the
  guidance button raises the notification counter by exactly one, counted from the value
  the counter has when the block is entered; the parts of the run before the block notify
  on their own. With the dark background selected and the scripture button not pressed,
  the counter is two higher after the run when the check box for remembering the
  preferences is ticked, and one higher when it is not.
\<close>

theorem main_guidance_request:
  assumes "in_seek_guidance i" and "\<not> in_clear_form i"
    and "in_faith i \<noteq> []" and "in_trouble i \<noteq> []"
    and "generate_content w (build_prompt (in_faith i) (in_path i) (in_trouble i)) = Inr T"
  shows "user_data (snd (main w i s))
           = user_data s @ [\<lparr>faith = in_faith i, path = in_path i, trouble = in_trouble i,
                             response = T, timestamp = in_now i\<rparr>]
         \<and> length (user_data (snd (main w i s))) = length (user_data s) + 1
         \<and> notification_counter (snd (main w i s))
             = notification_counter (snd (main_before_seek w i s)) + 1
         \<and> (in_bg i = DefaultDark \<and> \<not> in_auto_bg i \<longrightarrow>
              notification_counter (snd (main w i s))
                = notification_counter s + (if in_remember i then 2 else 1))"
proof -
  have run: "snd (main w i s) =
       snd (main_seek_guidance w True (in_faith i) (in_path i) (in_trouble i)
              (in_save_prefs i) (in_now i) (snd (main_before_seek w i s)))"
    using assms(1,2) by (simp add: snd_main_no_clear)
  have journal: "user_data (snd (main w i s))
           = user_data s @ [\<lparr>faith = in_faith i, path = in_path i, trouble = in_trouble i,
                             response = T, timestamp = in_now i\<rparr>]"
    unfolding run
    by (simp add: main_seek_guidance_block_success(1) [OF assms(3,4,5)]
          main_before_seek_user_data)
  have counter: "notification_counter (snd (main w i s))
             = notification_counter (snd (main_before_seek w i s)) + 1"
    unfolding run by (rule main_seek_guidance_block_success(2) [OF assms(3,4,5)])
  have plain: "in_bg i = DefaultDark \<and> \<not> in_auto_bg i \<longrightarrow>
              notification_counter (snd (main w i s))
                = notification_counter s + (if in_remember i then 2 else 1)"
    using counter by (simp add: main_before_seek_plain_counter)
  from journal counter plain show ?thesis by simp
qed

theorem main_guidance_request_witness:
  "user_data (snd (main working_world request_inputs initial_session)) = [sample_entry]
   \<and> length (user_data (snd (main working_world request_inputs initial_session))) = 1
   \<and> notification_counter (snd (main working_world request_inputs initial_session)) = 2"
proof -
  have a: "in_seek_guidance request_inputs" and b: "\<not> in_clear_form request_inputs"
    and c: "in_faith request_inputs \<noteq> []" and d: "in_trouble request_inputs \<noteq> []"
    by (simp_all add: request_inputs_def)
  have g: "generate_content working_world
             (build_prompt (in_faith request_inputs) (in_path request_inputs)
                (in_trouble request_inputs)) = Inr ''Be at peace''"
    by (simp add: working_world_def)
  from main_guidance_request [OF a b c d g, of initial_session]
  show ?thesis
    by (simp add: request_inputs_def initial_session_def sample_entry_def)
qed

text \<open>
  The claim as it stands fails on a whole run: the request of the specification's
  scenario, made on a fresh session with the page's check boxes as the page first shows
  them, leaves the counter at two, not at one.
\<close>

theorem main_guidance_request_counter_counterexample:
  "in_seek_guidance request_inputs
   \<and> in_faith request_inputs = ''Buddhism''
   \<and> in_trouble request_inputs = ''I feel lost''
   \<and> notification_counter initial_session = 0
   \<and> notification_counter (snd (main working_world request_inputs initial_session)) = 2
   \<and> notification_counter (snd (main working_world request_inputs initial_session))
       \<noteq> notification_counter initial_session + 1"
proof -
  have run: "snd (main working_world request_inputs initial_session) =
       snd (main_seek_guidance working_world True ''Buddhism'' SeekPurpose ''I feel lost''
              True ''2024-05-01T09:30:00''
              (snd (main_before_seek working_world request_inputs initial_session)))"
    using snd_main_no_clear [of request_inputs working_world initial_session]
    by (simp add: request_inputs_def)
  have before: "notification_counter
                  (snd (main_before_seek working_world request_inputs initial_session)) = 1"
    using main_before_seek_plain_counter [of request_inputs working_world initial_session]
    by (simp add: request_inputs_def initial_session_def)
  have g: "generate_content working_world (build_prompt ''Buddhism'' SeekPurpose ''I feel lost'')
             = Inr ''Be at peace''"
    by (simp add: working_world_def)
  have "notification_counter (snd (main working_world request_inputs initial_session)) = 2"
    unfolding run
    using main_seek_guidance_block_success(2) [OF _ _ g, of True "''2024-05-01T09:30:00''"
            "snd (main_before_seek working_world request_inputs initial_session)"] before
    by simp
  then show ?thesis by (simp add: request_inputs_def initial_session_def)
qed

subsection \<open>The block of the guidance button\<close>

text \<open>
  Claim C6. When the generator raises, the exception is caught and shown (an error toast
  and an error box), the journal is as before, the notification counter is one higher,
  and the preferences are as before except for the faith stored ahead of the call when
  the check box for remembering it is ticked.
\<close>

theorem main_seek_guidance_provider_error:
  assumes "faith_input \<noteq> []" and "trouble_input \<noteq> []"
    and "generate_content w (build_prompt faith_input path_input trouble_input) = Inl e"
  shows "fst (main_seek_guidance w True faith_input path_input trouble_input save_prefs now s)
           = [GenerateContent (build_prompt faith_input path_input trouble_input),
              Toast ''error'' (''Connection error: '' @ take 50 (str e)),
              StError (''The spirits are troubled: '' @ str e)]
         \<and> user_data (snd (main_seek_guidance w True faith_input path_input trouble_input
                              save_prefs now s)) = user_data s
         \<and> notification_counter (snd (main_seek_guidance w True faith_input path_input
                                        trouble_input save_prefs now s))
           = notification_counter s + 1
         \<and> user_preferences (snd (main_seek_guidance w True faith_input path_input
                                    trouble_input save_prefs now s))
           = (if save_prefs then (user_preferences s)\<lparr>pref_faith := faith_input\<rparr>
              else user_preferences s)
         \<and> snd (main_seek_guidance w True faith_input path_input trouble_input False now s)
           = s\<lparr>notification_counter := notification_counter s + 1\<rparr>"
  using assms
  by (simp add: main_seek_guidance_def show_notification_def Let_def)

theorem main_seek_guidance_provider_error_witness:
  "fst (main_seek_guidance failing_world True ''Buddhism'' SeekPurpose ''I feel lost'' True
          ''2024-05-01T09:30:00'' initial_session)
     = [GenerateContent (build_prompt ''Buddhism'' SeekPurpose ''I feel lost''),
        Toast ''error'' ''Connection error: 429 quota exceeded'',
        StError ''The spirits are troubled: 429 quota exceeded'']
   \<and> user_data (snd (main_seek_guidance failing_world True ''Buddhism'' SeekPurpose
                       ''I feel lost'' True ''2024-05-01T09:30:00'' initial_session)) = []
   \<and> notification_counter (snd (main_seek_guidance failing_world True ''Buddhism'' SeekPurpose
                       ''I feel lost'' True ''2024-05-01T09:30:00'' initial_session)) = 1
   \<and> user_preferences (snd (main_seek_guidance failing_world True ''Buddhism'' SeekPurpose
                       ''I feel lost'' True ''2024-05-01T09:30:00'' initial_session))
       = \<lparr>pref_faith = ''Buddhism'', favorite_path = FindHelp\<rparr>"
proof -
  have g: "generate_content failing_world (build_prompt ''Buddhism'' SeekPurpose ''I feel lost'')
             = Inl (PyException ''429 quota exceeded'')"
    by (simp add: failing_world_def)
  have "''Buddhism'' \<noteq> []" and "''I feel lost'' \<noteq> []" by simp_all
  from main_seek_guidance_provider_error
         [OF this g, of True "''2024-05-01T09:30:00''" initial_session]
  show ?thesis by (simp add: initial_session_def)
qed

text \<open>
  Claim C10. A guidance request with an empty faith or an empty concern does not call the
  generator (no such call is among the events, and the outcome is the same in every
  world), appends nothing to the journal, and raises the notification counter by one for
  the warning; nothing else in the session changes.
\<close>

theorem main_seek_guidance_missing_field:
  assumes "faith_input = [] \<or> trouble_input = []"
  shows "filter is_generate
           (fst (main_seek_guidance w True faith_input path_input trouble_input save_prefs now s))
           = []
         \<and> main_seek_guidance w True faith_input path_input trouble_input save_prefs now s
           = main_seek_guidance w' True faith_input path_input trouble_input save_prefs now s
         \<and> user_data (snd (main_seek_guidance w True faith_input path_input trouble_input
                              save_prefs now s)) = user_data s
         \<and> notification_counter (snd (main_seek_guidance w True faith_input path_input
                                        trouble_input save_prefs now s))
           = notification_counter s + 1
         \<and> snd (main_seek_guidance w True faith_input path_input trouble_input save_prefs now s)
           = s\<lparr>notification_counter := notification_counter s + 1\<rparr>"
  using assms
  by (auto simp add: main_seek_guidance_def show_notification_def Let_def)

theorem main_seek_guidance_missing_field_witness:
  "fst (main_seek_guidance working_world True [] SeekPurpose ''I feel lost'' True
          ''2024-05-01T09:30:00'' initial_session)
     = [Toast ''warning'' ''Please fill in all fields to receive guidance'',
        StWarning ''Please share your faith and your concern to receive personalized guidance.'']
   \<and> user_data (snd (main_seek_guidance working_world True [] SeekPurpose ''I feel lost'' True
                       ''2024-05-01T09:30:00'' initial_session)) = []
   \<and> notification_counter (snd (main_seek_guidance working_world True [] SeekPurpose
                       ''I feel lost'' True ''2024-05-01T09:30:00'' initial_session)) = 1"
proof -
  have h: "([]::string) = [] \<or> ''I feel lost'' = []" by simp
  have ev: "fst (main_seek_guidance working_world True [] SeekPurpose ''I feel lost'' True
          ''2024-05-01T09:30:00'' initial_session)
     = [Toast ''warning'' ''Please fill in all fields to receive guidance'',
        StWarning ''Please share your faith and your concern to receive personalized guidance.'']"
    by (simp add: main_seek_guidance_def show_notification_def Let_def)
  from ev main_seek_guidance_missing_field
         [OF h, of working_world SeekPurpose True "''2024-05-01T09:30:00''" initial_session]
  show ?thesis by (simp add: initial_session_def)
qed

subsection \<open>The scripture background button\<close>

text \<open>
  Claim C9. With an empty faith field the scripture background button does nothing: the
  loop over the catalogue is not entered, nothing is fetched or shown, and the session is
  as before, in every world and whether or not the button is pressed. The loop itself,
  run on the empty string, would stop at the first key, Hinduism.
\<close>

theorem main_scripture_bg_empty_faith:
  "main_scripture_bg w auto_bg [] s = ([], s)
   \<and> first_faith_key [] faith_keys = Some ''Hinduism''"
proof
  show "main_scripture_bg w auto_bg [] s = ([], s)"
    by (simp add: main_scripture_bg_def)
  show "first_faith_key [] faith_keys = Some ''Hinduism''"
    using resolve_empty by (simp only: resolveByFreeText_def)
qed

subsection \<open>The journal and its views\<close>

text \<open>
  Claim C8. The side bar walks the journal from the newest entry to the oldest: what it
  shows is exactly the reverse of the stored sequence. Showing the journal leaves the
  session as it was, so the stored sequence stays in the order of creation and a second
  showing gives the same walk. Every append makes the journal one longer, and after any
  sequence of appends the stored sequence is the old one followed by the appended entries
  in order, the newest-first walk being the reverse of that.
\<close>

theorem journal_views:
  "reversed (user_data s) = rev (user_data s)
   \<and> fst (show_user_history s)
       = (if user_data s = [] then [StInfo ''Your spiritual journey begins now...'']
          else [TotalSessions (length (user_data s)), Divider]
                 @ map history_expander (rev (user_data s)))
   \<and> snd (show_user_history s) = s
   \<and> show_user_history (snd (show_user_history s)) = show_user_history s
   \<and> user_data (journal_append e s) = user_data s @ [e]
   \<and> length (user_data (journal_append e s)) = length (user_data s) + 1
   \<and> user_data (fold journal_append es s) = user_data s @ es
   \<and> length (user_data (fold journal_append es s)) = length (user_data s) + length es
   \<and> reversed (user_data (fold journal_append es s)) = rev es @ rev (user_data s)"
  by (simp add: reversed_rev show_user_history_def journal_append_def user_data_fold_append)

subsection \<open>The excerpts of an entry\<close>

text \<open>
  Claim C2 as it stands fails: for an entry whose concern and guidance are shorter than
  the limits, the excerpts are not the unmodified texts; the marker is appended to both.
\<close>

theorem summarize_short_counterexample:
  "length (trouble sample_entry) < 150
   \<and> fst (summarize sample_entry) = ''I feel lost...''
   \<and> fst (summarize sample_entry) \<noteq> trouble sample_entry
   \<and> length (response sample_entry) < 300
   \<and> snd (summarize sample_entry) = ''Be at peace...''
   \<and> snd (summarize sample_entry) \<noteq> response sample_entry"
  by (simp add: summarize_def sample_entry_def)

text \<open>
  Claim C2, as amended. The excerpts of an entry are the first 150 characters of the
  concern and the first 300 characters of the guidance, each followed by the marker
  \<^verbatim>\<open>...\<close> whether or not anything was cut off: a text within its limit is shown whole
  with the marker after it, a longer one is cut to exactly the limit and then marked.
  Showing the journal changes nothing in the session, so the stored entry keeps its full
  texts, and every stored entry is shown with these excerpts.
\<close>

theorem summarize_always_marked:
  "(length (trouble e) \<le> 150 \<longrightarrow> fst (summarize e) = trouble e @ ''...'')
   \<and> (150 < length (trouble e) \<longrightarrow>
         fst (summarize e) = take 150 (trouble e) @ ''...''
         \<and> length (fst (summarize e)) = 153)
   \<and> (length (response e) \<le> 300 \<longrightarrow> snd (summarize e) = response e @ ''...'')
   \<and> (300 < length (response e) \<longrightarrow>
         snd (summarize e) = take 300 (response e) @ ''...''
         \<and> length (snd (summarize e)) = 303)
   \<and> snd (show_user_history s) = s
   \<and> (e \<in> set (user_data s) \<longrightarrow>
         Expander (path_label (path e) @ '' - '' @ take 10 (timestamp e))
           [StWrite (''**Faith:** '' @ faith e),
            StWrite (''**Path:** '' @ path_label (path e)),
            StWrite ''**Your Concern:**'',
            StWrite (''_'' @ take 150 (trouble e) @ ''..._''),
            Divider,
            StWrite ''**Guidance Received:**'',
            StWrite (take 300 (response e) @ ''...''),
            Caption (''_Received at: '' @ timestamp e @ ''_'')]
           \<in> set (fst (show_user_history s)))"
proof (intro conjI impI)
  assume "e \<in> set (user_data s)"
  then have "user_data s \<noteq> []" and "history_expander e \<in> history_expander ` set (user_data s)"
    by auto
  then have "history_expander e \<in> set (fst (show_user_history s))"
    by (simp add: show_user_history_def reversed_rev)
  then show "Expander (path_label (path e) @ '' - '' @ take 10 (timestamp e))
           [StWrite (''**Faith:** '' @ faith e),
            StWrite (''**Path:** '' @ path_label (path e)),
            StWrite ''**Your Concern:**'',
            StWrite (''_'' @ take 150 (trouble e) @ ''..._''),
            Divider,
            StWrite ''**Guidance Received:**'',
            StWrite (take 300 (response e) @ ''...''),
            Caption (''_Received at: '' @ timestamp e @ ''_'')]
           \<in> set (fst (show_user_history s))"
    by (simp add: history_expander_def summarize_def)
qed (simp_all add: summarize_def show_user_history_def)

theorem summarize_always_marked_witness:
  "fst (summarize sample_entry) = ''I feel lost...''
   \<and> snd (summarize sample_entry) = ''Be at peace...''
   \<and> fst (summarize long_entry) = replicate 150 CHR ''a'' @ ''...''
   \<and> length (fst (summarize long_entry)) = 153
   \<and> snd (summarize long_entry) = replicate 300 CHR ''b'' @ ''...''
   \<and> length (snd (summarize long_entry)) = 303
   \<and> user_data (snd (show_user_history (journal_append long_entry initial_session)))
       = [long_entry]
   \<and> length (trouble long_entry) = 200"
proof -
  have short: "length (trouble sample_entry) \<le> 150" "length (response sample_entry) \<le> 300"
    by (simp_all add: sample_entry_def)
  have long: "150 < length (trouble long_entry)" "300 < length (response long_entry)"
    by (simp_all add: long_entry_def)
  have texts: "trouble sample_entry = ''I feel lost''" "response sample_entry = ''Be at peace''"
    "take 150 (trouble long_entry) = replicate 150 CHR ''a''"
    "take 300 (response long_entry) = replicate 300 CHR ''b''"
    "length (trouble long_entry) = 200"
    by (simp_all add: sample_entry_def long_entry_def)
  have stored: "user_data (journal_append long_entry initial_session) = [long_entry]"
    by (simp add: journal_append_def initial_session_def)
  from short long texts stored
    summarize_always_marked [of sample_entry initial_session]
    summarize_always_marked [of long_entry "journal_append long_entry initial_session"]
  show ?thesis by simp
qed

subsection \<open>The reminder gate\<close>






text \<open>
  Claim C5 as it stands fails in one point: the reminder of hour 9 records no hour. The
  state reached by firing at hour 9 is the very state reached by firing at hour 12.
\<close>

theorem reminder_records_no_hour_counterexample:
  "reminder_fired (check_and_show_reminder 9 0 initial_session)
   \<and> reminder_fired (check_and_show_reminder 12 0 initial_session)
   \<and> snd (check_and_show_reminder 9 0 initial_session)
       = snd (check_and_show_reminder 12 0 initial_session)
   \<and> snd (shouldFire_spec 9 None) \<noteq> snd (shouldFire_spec 12 None)"
  by (simp add: check_and_show_reminder_fired check_and_show_reminder_state
        shouldFire_spec_def reminder_hours_def initial_session_def)

text \<open>
  Claim C5, as amended. From a state whose flag is not set, a run at hour 9 shows a
  reminder and sets the flag (the hour itself is not stored); a second run at hour 9 from
  the resulting state shows nothing and leaves the state unchanged; a run at hour 10 after
  that shows nothing and clears the flag, which gives back the state the trace started
  from. The gate of the specification's words fires at the same steps of this trace, and
  its remembered hour is present exactly when the flag is set.
\<close>

theorem reminder_trace_9_9_10:
  assumes "\<not> reminder_triggered s"
  shows "reminder_fired (check_and_show_reminder 9 c1 s)
         \<and> snd (check_and_show_reminder 9 c1 s) = s\<lparr>reminder_triggered := True\<rparr>
         \<and> \<not> reminder_fired (check_and_show_reminder 9 c2 (snd (check_and_show_reminder 9 c1 s)))
         \<and> snd (check_and_show_reminder 9 c2 (snd (check_and_show_reminder 9 c1 s)))
             = snd (check_and_show_reminder 9 c1 s)
         \<and> \<not> reminder_fired
               (check_and_show_reminder 10 c3
                  (snd (check_and_show_reminder 9 c2 (snd (check_and_show_reminder 9 c1 s)))))
         \<and> snd (check_and_show_reminder 10 c3
                  (snd (check_and_show_reminder 9 c2 (snd (check_and_show_reminder 9 c1 s)))))
             = s
         \<and> fst (poll_reminders [9, 9, 10] s) = [True, False, False]
         \<and> poll_spec [9, 9, 10] None = ([True, False, False], None)
         \<and> shouldFire_spec 9 None = (True, Some 9)
         \<and> shouldFire_spec 9 (Some 9) = (False, Some 9)
         \<and> shouldFire_spec 10 (Some 9) = (False, None)"
proof -
  have restored: "s\<lparr>reminder_triggered := False\<rparr> = s"
    using assms by (cases s) simp
  show ?thesis
    using assms restored
    by (simp add: check_and_show_reminder_fired check_and_show_reminder_state Let_def
          shouldFire_spec_def reminder_hours_def)
qed

theorem reminder_trace_9_9_10_witness:
  "reminder_fired (check_and_show_reminder 9 0 initial_session)
   \<and> snd (check_and_show_reminder 9 0 initial_session)
       = initial_session\<lparr>reminder_triggered := True\<rparr>
   \<and> \<not> reminder_fired
         (check_and_show_reminder 9 0 (snd (check_and_show_reminder 9 0 initial_session)))
   \<and> snd (check_and_show_reminder 10 0
            (snd (check_and_show_reminder 9 0 (snd (check_and_show_reminder 9 0 initial_session)))))
       = initial_session
   \<and> fst (poll_reminders [9, 9, 10] initial_session) = [True, False, False]"
proof -
  have fresh: "\<not> reminder_triggered initial_session"
    by (simp add: initial_session_def)
  note trace = reminder_trace_9_9_10 [OF fresh, of 0 0 0]
  show ?thesis
  proof (intro conjI)
    show "reminder_fired (check_and_show_reminder 9 0 initial_session)"
      by (rule trace [THEN conjunct1])
    show "snd (check_and_show_reminder 9 0 initial_session)
            = initial_session\<lparr>reminder_triggered := True\<rparr>"
      by (rule trace [THEN conjunct2, THEN conjunct1])
    show "\<not> reminder_fired
           (check_and_show_reminder 9 0 (snd (check_and_show_reminder 9 0 initial_session)))"
      by (rule trace [THEN conjunct2, THEN conjunct2, THEN conjunct1])
    show "snd (check_and_show_reminder 10 0
            (snd (check_and_show_reminder 9 0 (snd (check_and_show_reminder 9 0 initial_session)))))
            = initial_session"
      by (rule trace [THEN conjunct2, THEN conjunct2, THEN conjunct2, THEN conjunct2, THEN conjunct2, THEN conjunct1])
    show "fst (poll_reminders [9, 9, 10] initial_session) = [True, False, False]"
      by (rule trace [THEN conjunct2, THEN conjunct2, THEN conjunct2, THEN conjunct2, THEN conjunct2, THEN conjunct2, THEN conjunct1])
  qed
qed

subsection \<open>A background that cannot be loaded\<close>

text \<open>
  When the picture cannot be loaded, neither of the two functions that apply a background
  touches the session, and the background type in particular stays what it was.
\<close>

lemma set_background_failure_session:
  "\<not> fst (set_background_from_url w u n s) \<Longrightarrow> snd (snd (set_background_from_url w u n s)) = s"
  "\<not> fst (set_background_from_file w p s) \<Longrightarrow> snd (snd (set_background_from_file w p s)) = s"
  by (auto simp: set_background_from_url_def set_background_from_file_def
        split: sum.splits if_splits)

lemma scripture_theme_failure_session:
  assumes "\<not> fst (set_background_from_url w u selected_faith s)"
    and "map_of FAITH_BACKGROUNDS selected_faith = Some u"
  shows "snd (show_background_settings w (ScriptureTheme selected_faith True) s)
           = s\<lparr>notification_counter := notification_counter s + 1\<rparr>"
proof (cases "set_background_from_url w u selected_faith s")
  case (fields ok ev s')
  with assms(1) have "ok = False" by simp
  with fields have "s' = s" by (auto dest: set_background_from_url_failed)
  with fields \<open>ok = False\<close> assms(2) show ?thesis
    by (simp add: show_background_settings_def show_notification_def Let_def)
qed

lemma main_scripture_bg_failure_session:
  assumes "\<And>u. \<not> fst (set_background_from_url w u (the (first_faith_key f faith_keys)) s)"
  shows "snd (main_scripture_bg w b f s) = s"
proof (cases "b \<and> f \<noteq> []")
  case False
  then show ?thesis by (auto simp: main_scripture_bg_def)
next
  case True
  show ?thesis
  proof (cases "first_faith_key f faith_keys")
    case None
    with True show ?thesis by (simp add: main_scripture_bg_def)
  next
    case (Some k)
    show ?thesis
    proof (cases "map_of FAITH_BACKGROUNDS k")
      case None
      with True Some show ?thesis by (simp add: main_scripture_bg_def)
    next
      case (Some u)
      obtain ok ev s' where r: "set_background_from_url w u k s = (ok, ev, s')"
        by (cases "set_background_from_url w u k s") auto
      from assms [of u] \<open>first_faith_key f faith_keys = Some k\<close> r have "ok = False" by simp
      with r have "s' = s" by (auto dest: set_background_from_url_failed)
      with True \<open>first_faith_key f faith_keys = Some k\<close> Some r \<open>ok = False\<close> show ?thesis
        by (simp add: main_scripture_bg_def)
    qed
  qed
qed

text \<open>
  Claim C7, at an input where the script breaks it. The user types the path of something
  that exists but cannot be opened for reading, and presses the button. The load fails
  and the background type stays as it was, but the path of the failed picture is left in
  \<^verbatim>\<open>custom_bg_path\<close>: the switch is half applied. The upload branch next to it does
  clear the path when the load fails; it clears it even when a custom background with its
  own path was active before, so there too the earlier path is not kept.
\<close>

theorem local_file_failure_keeps_new_path:
  "path_exists failing_world ''/tmp''
   \<and> read_file failing_world ''/tmp'' = Inl (PyException ''[Errno 21] Is a directory'')
   \<and> fst (show_background_settings failing_world (LocalFilePath ''/tmp'' True) initial_session)
       = [OpenRead ''/tmp'', StWarning ''Error loading background: [Errno 21] Is a directory'']
   \<and> custom_bg_path initial_session = None
   \<and> custom_bg_path
         (snd (show_background_settings failing_world (LocalFilePath ''/tmp'' True) initial_session))
       = Some ''/tmp''
   \<and> current_bg_type
         (snd (show_background_settings failing_world (LocalFilePath ''/tmp'' True) initial_session))
       = current_bg_type initial_session
   \<and> custom_bg_path
         (snd (show_background_settings failing_world (UploadImage (Some ''a.png'')) initial_session))
       = None
   \<and> custom_bg_path custom_session = Some ''/home/user/a.png''
   \<and> custom_bg_path
         (snd (show_background_settings failing_world (LocalFilePath ''/tmp'' True) custom_session))
       = Some ''/tmp''
   \<and> custom_bg_path
         (snd (show_background_settings failing_world (UploadImage (Some ''b.png'')) custom_session))
       = None
   \<and> current_bg_type
         (snd (show_background_settings failing_world (UploadImage (Some ''b.png'')) custom_session))
       = ''custom''"
  by (simp add: show_background_settings_def set_background_from_file_def failing_world_def
        initial_session_def custom_session_def Let_def)

end
